theory Spec2Isabelle
  imports Complex_Main "HOL-Library.Sublist" "HOL-Library.Multiset"
begin

section \<open>Values shared by the service\<close>

text \<open>
  The JSON values that \<^verbatim>\<open>json.loads\<close> returns and that the \<^verbatim>\<open>events.data\<close> column
  (\<^verbatim>\<open>Column(JSON, nullable=True)\<close>) holds. Python's \<^verbatim>\<open>None\<close> is \<open>JNull\<close>; a dict is
  an association list in insertion order. JSON numbers are the integers; a float
  payload is outside this model.
\<close>

datatype json =
    JNull
  | JBool bool
  | JInt int
  | JStr string
  | JArr "json list"
  | JObj "(string \<times> json) list"

text \<open>Python's \<^verbatim>\<open>str(n)\<close> for an \<^verbatim>\<open>int\<close>, as the f-strings of the source format it.\<close>

definition digit_char :: "nat \<Rightarrow> char" where
  "digit_char d = ''0123456789'' ! d"

fun str_nat :: "nat \<Rightarrow> string" where
  "str_nat n = (if n < 10 then [digit_char n] else str_nat (n div 10) @ [digit_char (n mod 10)])"

declare str_nat.simps [simp del]

definition str_int :: "int \<Rightarrow> string" where
  "str_int i = (if i < 0 then CHR ''-'' # str_nat (nat (- i)) else str_nat (nat i))"

section \<open>Quality classifier: \<^verbatim>\<open>enhance_lead_with_llm\<close> (app.py)\<close>

text \<open>
  What the \<^verbatim>\<open>try\<close> block of \<^verbatim>\<open>enhance_lead_with_llm\<close> (the call of the chat completion
  API, then \<^verbatim>\<open>json.loads\<close> of the stripped reply) comes to: any exception raised
  there, or the parsed value bound to \<^verbatim>\<open>result\<close>.
\<close>

datatype llm_outcome = Raised | Parsed json

text \<open>The rule written out twice in the source: lines 57-62 and lines 106-111.\<close>

definition rule_quality :: "int \<Rightarrow> string \<Rightarrow> string" where
  "rule_quality sz src =
     (if sz \<ge> 500 \<and> src \<in> set [''Referral'', ''Trade Show''] then ''High''
      else if sz \<ge> 100 \<and> src \<notin> set [''Organic''] then ''Medium''
      else ''Low'')"

text \<open>The f-string of lines 64 and 113.\<close>

definition rule_summary :: "string \<Rightarrow> string \<Rightarrow> int \<Rightarrow> string \<Rightarrow> string" where
  "rule_summary company industry sz src =
     ''Lead from '' @ company @ '' in '' @ industry @ '' industry with '' @ str_int sz
       @ '' employees. Source: '' @ src @ ''.''"

definition rule_result :: "string \<Rightarrow> string \<Rightarrow> int \<Rightarrow> string \<Rightarrow> json" where
  "rule_result company industry sz src =
     JObj [(''quality'', JStr (rule_quality sz src)),
           (''summary'', JStr (rule_summary company industry sz src))]"

text \<open>
  The first argument is the module flag \<^verbatim>\<open>LLM_AVAILABLE\<close>, the second the outcome of
  the \<^verbatim>\<open>try\<close> block, read only when the flag is set.
\<close>

definition enhance_lead_with_llm ::
  "bool \<Rightarrow> llm_outcome \<Rightarrow> string \<Rightarrow> string \<Rightarrow> string \<Rightarrow> int \<Rightarrow> string \<Rightarrow> json" where
  "enhance_lead_with_llm llm_available outcome name company industry sz src =
     (if \<not> llm_available then rule_result company industry sz src
      else case outcome of
             Parsed result \<Rightarrow> result
           | Raised \<Rightarrow> rule_result company industry sz src)"

text \<open>Python's \<^verbatim>\<open>d[key]\<close> on the returned value, as \<^verbatim>\<open>load_sample_data\<close> reads it.\<close>

fun get_item :: "json \<Rightarrow> string \<Rightarrow> json option" where
  "get_item (JObj kvs) k = map_of kvs k"
| "get_item _ k = None"

section \<open>Stored records (models.py) and request and response schemas (schemas.py)\<close>

text \<open>
  A \<^verbatim>\<open>datetime\<close> is a reading of the server clock; the library functions
  \<^verbatim>\<open>datetime.fromisoformat\<close> and \<^verbatim>\<open>isoformat\<close> are parameters of the
  functions that call them, \<^verbatim>\<open>datetime.now()\<close> is the parameter \<open>now\<close>.
\<close>

type_synonym datetime = int

record lead =
  id_l :: int
  name :: string
  company :: string
  industry :: string
  size_l :: int
  source :: string
  created_at :: datetime
  quality :: string
  summary :: "string option"

text \<open>\<^verbatim>\<open>Event.data\<close> is \<open>JNull\<close> where Python reads \<^verbatim>\<open>None\<close>.\<close>

record event =
  id_e :: int
  action :: string
  data :: json
  timestamp :: datetime

record database =
  leads :: "lead list"
  events :: "event list"

record lead_response =
  id_r :: string
  name_r :: string
  company_r :: string
  industry_r :: string
  size_r :: int
  source_r :: string
  created_at_r :: string
  quality_r :: string
  summary_r :: string

record event_data =
  action_d :: string
  data_d :: json
  timestamp_d :: "string option"

record event_response =
  id_v :: int
  action_v :: string
  data_v :: json
  timestamp_v :: string

datatype error = TypeError | KeyError | ZeroDivisionError | HTTPException nat

text \<open>
  The key the table assigns to a row added without one (SQLite's integer primary key):
  one more than the largest key stored, 1 in an empty table.
\<close>

definition next_id :: "event list \<Rightarrow> int" where
  "next_id evs = (case map id_e evs of [] \<Rightarrow> 1 | i # is \<Rightarrow> fold max is i + 1)"

section \<open>Listing leads: \<^verbatim>\<open>get_leads\<close> (app.py)\<close>

text \<open>
  \<^verbatim>\<open>LeadModel.industry.ilike(pattern)\<close> is SQL's \<^verbatim>\<open>lower(industry) LIKE lower(pattern)\<close>:
  in the pattern \<^verbatim>\<open>%\<close> stands for any run of characters and \<^verbatim>\<open>_\<close> for any single
  character. \<open>lower\<close> folds the ASCII letters, as the database does.
\<close>

definition lower :: "char \<Rightarrow> char" where
  "lower c =
     (case map_of (zip ''ABCDEFGHIJKLMNOPQRSTUVWXYZ'' ''abcdefghijklmnopqrstuvwxyz'') c of
        Some d \<Rightarrow> d
      | None \<Rightarrow> c)"

fun like :: "string \<Rightarrow> string \<Rightarrow> bool" where
  "like [] [] = True"
| "like [] (c # cs) = False"
| "like (p # ps) [] = (p = CHR ''%'' \<and> like ps [])"
| "like (p # ps) (c # cs) =
     (if p = CHR ''%'' then like ps (c # cs) \<or> like (p # ps) cs
      else (p = CHR ''_'' \<or> p = c) \<and> like ps cs)"

definition ilike :: "string \<Rightarrow> string \<Rightarrow> bool" where
  "ilike col pattern = like (map lower pattern) (map lower col)"

text \<open>Python's truth value of an \<^verbatim>\<open>Optional[str]\<close> and of an \<^verbatim>\<open>Optional[int]\<close>.\<close>

fun truthy_str :: "string option \<Rightarrow> bool" where
  "truthy_str None = False"
| "truthy_str (Some s) = (s \<noteq> [])"

fun truthy_int :: "int option \<Rightarrow> bool" where
  "truthy_int None = False"
| "truthy_int (Some n) = (n \<noteq> 0)"

text \<open>Lines 190-198: the query, with its two optional filters; rows come in table order.\<close>

definition query_leads :: "string option \<Rightarrow> int option \<Rightarrow> lead list \<Rightarrow> lead list" where
  "query_leads industry_p size_p ls =
     (let q1 = (case industry_p of
                  Some i \<Rightarrow> if truthy_str industry_p
                            then filter (\<lambda>l. ilike (industry l) (''%'' @ i @ ''%'')) ls else ls
                | None \<Rightarrow> ls);
          q2 = (case size_p of
                  Some s \<Rightarrow> if truthy_int size_p then filter (\<lambda>l. size_l l \<ge> s) q1 else q1
                | None \<Rightarrow> q1)
      in q2)"

text \<open>Lines 201-209: the payload of the logged event, \<^verbatim>\<open>None\<close> when the dict is empty.\<close>

definition filter_data :: "string option \<Rightarrow> int option \<Rightarrow> (string \<times> json) list" where
  "filter_data industry_p size_p =
     (case industry_p of
        Some i \<Rightarrow> if truthy_str industry_p then [(''industry'', JStr i)] else []
      | None \<Rightarrow> [])
     @ (case size_p of
          Some s \<Rightarrow> if truthy_int size_p then [(''size'', JInt s)] else []
        | None \<Rightarrow> [])"

definition filter_event :: "datetime \<Rightarrow> string option \<Rightarrow> int option \<Rightarrow> event list \<Rightarrow> event" where
  "filter_event now industry_p size_p evs =
     \<lparr>id_e = next_id evs, action = ''filter'',
      data = (let fd = filter_data industry_p size_p in if fd \<noteq> [] then JObj fd else JNull),
      timestamp = now\<rparr>"

text \<open>
  Lines 216-228: \<^verbatim>\<open>LeadResponse\<close> requires a string summary, so a stored lead whose
  summary is \<^verbatim>\<open>None\<close> fails validation; the handler turns the exception into a 500.
\<close>

definition to_response :: "(datetime \<Rightarrow> string) \<Rightarrow> lead \<Rightarrow> lead_response option" where
  "to_response isoformat l =
     (case summary l of
        None \<Rightarrow> None
      | Some s \<Rightarrow>
          Some \<lparr>id_r = str_int (id_l l), name_r = name l, company_r = company l,
                industry_r = industry l, size_r = size_l l, source_r = source l,
                created_at_r = isoformat (created_at l), quality_r = quality l,
                summary_r = s\<rparr>)"

fun to_responses :: "(datetime \<Rightarrow> string) \<Rightarrow> lead list \<Rightarrow> lead_response list option" where
  "to_responses isoformat [] = Some []"
| "to_responses isoformat (l # ls) =
     (case to_response isoformat l of
        None \<Rightarrow> None
      | Some r \<Rightarrow> (case to_responses isoformat ls of None \<Rightarrow> None | Some rs \<Rightarrow> Some (r # rs)))"

text \<open>
  The handler: the new state of the store (the event is committed before the response
  is built) and the response or the HTTP error.
\<close>

definition get_leads ::
  "(datetime \<Rightarrow> string) \<Rightarrow> datetime \<Rightarrow> string option \<Rightarrow> int option \<Rightarrow> database
     \<Rightarrow> database \<times> (error + lead_response list)" where
  "get_leads isoformat now industry_p size_p db =
     (let found = query_leads industry_p size_p (leads db);
          db' = db\<lparr>events := events db @ [filter_event now industry_p size_p (events db)]\<rparr>
      in (db', case to_responses isoformat found of
                 None \<Rightarrow> Inl (HTTPException 500)
               | Some rs \<Rightarrow> Inr rs))"

section \<open>Logging an event: \<^verbatim>\<open>post_event\<close> (app.py)\<close>

text \<open>\<^verbatim>\<open>s.replace('Z', '+00:00')\<close>.\<close>

definition replace_Z :: "string \<Rightarrow> string" where
  "replace_Z s = concat (map (\<lambda>c. if c = CHR ''Z'' then ''+00:00'' else [c]) s)"

text \<open>
  Lines 245-251. \<open>fromisoformat\<close> returns \<open>None\<close> where the library function raises.
\<close>

definition event_timestamp :: "(string \<Rightarrow> datetime option) \<Rightarrow> datetime \<Rightarrow> string option \<Rightarrow> datetime" where
  "event_timestamp fromisoformat now ts =
     (case ts of
        Some s \<Rightarrow>
          if truthy_str ts
          then (case fromisoformat (replace_Z s) of Some t \<Rightarrow> t | None \<Rightarrow> now)
          else now
      | None \<Rightarrow> now)"

text \<open>
  \<^verbatim>\<open>EventResponse.data\<close> is an \<^verbatim>\<open>Optional[Dict[str, Any]]\<close>: \<^verbatim>\<open>None\<close> and a dict pass;
  what the validation library makes of any other value is the parameter \<open>as_dict\<close>
  (\<open>None\<close> where it raises).
\<close>

fun response_data :: "(json \<Rightarrow> json option) \<Rightarrow> json \<Rightarrow> json option" where
  "response_data as_dict JNull = Some JNull"
| "response_data as_dict (JObj kvs) = Some (JObj kvs)"
| "response_data as_dict v = as_dict v"

definition post_event ::
  "(string \<Rightarrow> datetime option) \<Rightarrow> (datetime \<Rightarrow> string) \<Rightarrow> (json \<Rightarrow> json option) \<Rightarrow> datetime
     \<Rightarrow> event_data \<Rightarrow> database \<Rightarrow> database \<times> (error + event_response)" where
  "post_event fromisoformat isoformat as_dict now event_data db =
     (let ev = \<lparr>id_e = next_id (events db), action = action_d event_data,
                data = data_d event_data,
                timestamp = event_timestamp fromisoformat now (timestamp_d event_data)\<rparr>;
          db' = db\<lparr>events := events db @ [ev]\<rparr>
      in (db', case response_data as_dict (data ev) of
                 None \<Rightarrow> Inl (HTTPException 500)
               | Some d \<Rightarrow>
                   Inr \<lparr>id_v = id_e ev, action_v = action ev, data_v = d,
                        timestamp_v = isoformat (timestamp ev)\<rparr>))"

section \<open>Usage analytics: \<^verbatim>\<open>get_usage_analytics\<close> (analytics.py)\<close>

text \<open>An exception ends the computation: the next step runs on a result only.\<close>

fun and_then :: "error + 'a \<Rightarrow> ('a \<Rightarrow> error + 'b) \<Rightarrow> error + 'b" where
  "and_then (Inl e) f = Inl e"
| "and_then (Inr x) f = f x"

subsection \<open>Action frequency (lines 53-56)\<close>





subsection \<open>Filter usage patterns (lines 63-82)\<close>

text \<open>Python's truth value of a payload: \<^verbatim>\<open>if event.data:\<close>.\<close>

fun truthy :: "json \<Rightarrow> bool" where
  "truthy JNull = False"
| "truthy (JBool b) = b"
| "truthy (JInt n) = (n \<noteq> 0)"
| "truthy (JStr s) = (s \<noteq> [])"
| "truthy (JArr xs) = (xs \<noteq> [])"
| "truthy (JObj kvs) = (kvs \<noteq> [])"

text \<open>
  \<^verbatim>\<open>'key' in payload\<close>: a key of a dict, an element of a list, a substring of a string;
  a number, a boolean and \<^verbatim>\<open>None\<close> are not iterable.
\<close>

fun contains_key :: "string \<Rightarrow> json \<Rightarrow> error + bool" where
  "contains_key k (JObj kvs) = Inr (k \<in> set (map fst kvs))"
| "contains_key k (JArr xs) = Inr (JStr k \<in> set xs)"
| "contains_key k (JStr s) = Inr (sublist k s)"
| "contains_key k v = Inl TypeError"

text \<open>\<^verbatim>\<open>payload['key']\<close>: only a dict is indexed by a string.\<close>

fun subscript :: "json \<Rightarrow> string \<Rightarrow> error + json" where
  "subscript (JObj kvs) k = (case map_of kvs k of Some v \<Rightarrow> Inr v | None \<Rightarrow> Inl KeyError)"
| "subscript v k = Inl TypeError"

text \<open>A list and a dict cannot be keys of a dict.\<close>

fun hashable :: "json \<Rightarrow> bool" where
  "hashable (JArr xs) = False"
| "hashable (JObj kvs) = False"
| "hashable v = True"

text \<open>The number a value counts as in arithmetic and in comparisons (\<^verbatim>\<open>True == 1\<close>).\<close>

fun num_of :: "json \<Rightarrow> int option" where
  "num_of (JBool b) = Some (if b then 1 else 0)"
| "num_of (JInt n) = Some n"
| "num_of v = None"

text \<open>Python's \<^verbatim>\<open>==\<close> on two keys of a dict.\<close>

definition key_eq :: "json \<Rightarrow> json \<Rightarrow> bool" where
  "key_eq a b =
     (case (num_of a, num_of b) of
        (Some x, Some y) \<Rightarrow> x = y
      | (None, None) \<Rightarrow> a = b
      | _ \<Rightarrow> False)"

text \<open>\<^verbatim>\<open>d[k] = d.get(k, 0) + 1\<close> on a dict kept in insertion order.\<close>

fun bump :: "json \<Rightarrow> (json \<times> nat) list \<Rightarrow> (json \<times> nat) list" where
  "bump k [] = [(k, 1)]"
| "bump k ((k', n) # m) = (if key_eq k' k then (k', n + 1) # m else (k', n) # bump k m)"

text \<open>The body of the loop over the filter events, on the two accumulators.\<close>

definition scan_event ::
  "event \<Rightarrow> (json \<times> nat) list \<times> json list \<Rightarrow> error + ((json \<times> nat) list \<times> json list)" where
  "scan_event e st =
     (case st of (industry_filters, size_filters) \<Rightarrow>
        if truthy (data e) then
          and_then (contains_key ''industry'' (data e)) (\<lambda>has_industry.
          and_then (if has_industry
                    then and_then (subscript (data e) ''industry'') (\<lambda>v.
                           if hashable v then Inr (bump v industry_filters) else Inl TypeError)
                    else Inr industry_filters) (\<lambda>industry_filters'.
          and_then (contains_key ''size'' (data e)) (\<lambda>has_size.
          if has_size
          then and_then (subscript (data e) ''size'') (\<lambda>v.
                 Inr (industry_filters', size_filters @ [v]))
          else Inr (industry_filters', size_filters))))
        else Inr st)"

fun scan_events ::
  "event list \<Rightarrow> (json \<times> nat) list \<times> json list \<Rightarrow> error + ((json \<times> nat) list \<times> json list)" where
  "scan_events [] st = Inr st"
| "scan_events (e # es) st = and_then (scan_event e st) (scan_events es)"

text \<open>\<^verbatim>\<open>sum(size_filters)\<close>, from 0: a value that is not a number raises.\<close>

fun py_sum :: "int \<Rightarrow> json list \<Rightarrow> error + int" where
  "py_sum acc [] = Inr acc"
| "py_sum acc (v # vs) = (case num_of v of Some n \<Rightarrow> py_sum (acc + n) vs | None \<Rightarrow> Inl TypeError)"

text \<open>
  What the section reports: the industries with their counts as
  \<^verbatim>\<open>sorted(..., key=lambda x: x[1], reverse=True)\<close> lists them (a stable sort), and the
  mean of the size filters, an exact fraction here (the source divides floats and
  prints the quotient with no decimals).
\<close>

record filter_usage =
  most_filtered :: "(json \<times> nat) list"
  avg_size_filter :: "rat option"

definition filter_usage_patterns :: "event list \<Rightarrow> error + filter_usage" where
  "filter_usage_patterns evs =
     and_then (scan_events (filter (\<lambda>e. action e = ''filter'') evs) ([], [])) (\<lambda>st.
       case st of (industry_filters, size_filters) \<Rightarrow>
         let ranked = sort_key (\<lambda>x. - int (snd x)) industry_filters in
         if size_filters \<noteq> []
         then and_then (py_sum 0 size_filters) (\<lambda>size_sum.
                Inr \<lparr>most_filtered = ranked,
                     avg_size_filter = Some (of_int size_sum / of_nat (length size_filters))\<rparr>)
         else Inr \<lparr>most_filtered = ranked, avg_size_filter = None\<rparr>)"

section \<open>Lead analytics: \<^verbatim>\<open>get_lead_analytics\<close> (analytics.py)\<close>





section \<open>Theorems\<close>

subsection \<open>The default classifier\<close>

text \<open>
  C1. For every lead input with positive integer size, the classifier without
  augmentation (\<^verbatim>\<open>LLM_AVAILABLE\<close> false) returns quality High if the size is at least
  500 and the source is "Referral" or "Trade Show"; otherwise Medium if the size is at
  least 100 and the source is not "Organic"; otherwise Low.
\<close>

theorem default_classifier_quality:
  assumes "0 < sz"
  shows "get_item (enhance_lead_with_llm False outcome nm firm sector sz src) ''quality''
           = Some (JStr (if sz \<ge> 500 \<and> (src = ''Referral'' \<or> src = ''Trade Show'') then ''High''
                         else if sz \<ge> 100 \<and> src \<noteq> ''Organic'' then ''Medium''
                         else ''Low''))"
  by (simp add: enhance_lead_with_llm_def rule_result_def rule_quality_def)

theorem default_classifier_quality_witness:
  "(0::int) < 600 \<and>
   get_item (enhance_lead_with_llm False Raised ''Ann'' ''Acme'' ''Finance'' 600 ''Referral'') ''quality''
     = Some (JStr ''High'')"
  using default_classifier_quality [of 600 Raised "''Ann''" "''Acme''" "''Finance''" "''Referral''"]
  by simp

text \<open>
  C10. For any two lead inputs with the same size and the same source, the classifier
  without augmentation returns the same quality tier, whatever the name, company and
  industry inputs are.
\<close>

theorem default_classifier_noninterference:
  "get_item (enhance_lead_with_llm False o1 n1 c1 i1 sz src) ''quality''
     = get_item (enhance_lead_with_llm False o2 n2 c2 i2 sz src) ''quality''"
  by (simp add: enhance_lead_with_llm_def rule_result_def)

theorem default_classifier_noninterference_witness:
  "get_item (enhance_lead_with_llm False Raised ''Ann'' ''Acme'' ''Finance'' 150 ''PPC'') ''quality''
     = get_item (enhance_lead_with_llm False Raised ''Bob'' ''Bolt'' ''Healthcare'' 150 ''PPC'') ''quality''
   \<and> get_item (enhance_lead_with_llm False Raised ''Bob'' ''Bolt'' ''Healthcare'' 150 ''PPC'') ''quality''
     = Some (JStr ''Medium'')"
  using default_classifier_noninterference
          [of Raised "''Ann''" "''Acme''" "''Finance''" 150 "''PPC''"
              Raised "''Bob''" "''Bolt''" "''Healthcare''"]
  by (simp add: enhance_lead_with_llm_def rule_result_def rule_quality_def)

subsection \<open>Augmentation\<close>

text \<open>
  C2, as the claim states it, fails: a reply of the language model that parses as JSON
  is returned as it is. For a lead of size 600 from a referral and the reply
  \<^verbatim>\<open>{"quality": "Excellent", "summary": "Great lead"}\<close> the classifier returns quality
  "Excellent", where the rule gives "High".
\<close>

theorem llm_unlisted_quality_counterexample:
  "get_item (enhance_lead_with_llm True
       (Parsed (JObj [(''quality'', JStr ''Excellent''), (''summary'', JStr ''Great lead'')]))
       ''Ann'' ''Acme'' ''Finance'' 600 ''Referral'') ''quality'' = Some (JStr ''Excellent'')
   \<and> get_item (rule_result ''Acme'' ''Finance'' 600 ''Referral'') ''quality'' = Some (JStr ''High'')"
  by (simp add: enhance_lead_with_llm_def rule_result_def rule_quality_def)

text \<open>
  C2, amended. When the call of the language model or the parsing of its reply raises,
  the classifier falls back to the rule-based quality and the templated summary; a
  reply that parses is returned unchanged, with no check of its quality value.
\<close>

theorem llm_fallback_on_exception:
  "enhance_lead_with_llm True Raised nm firm sector sz src = rule_result firm sector sz src
   \<and> get_item (rule_result firm sector sz src) ''quality'' = Some (JStr (rule_quality sz src))
   \<and> get_item (rule_result firm sector sz src) ''summary''
        = Some (JStr (rule_summary firm sector sz src))
   \<and> enhance_lead_with_llm True (Parsed result) nm firm sector sz src = result"
  by (simp add: enhance_lead_with_llm_def rule_result_def)

theorem llm_fallback_on_exception_witness:
  "get_item (enhance_lead_with_llm True Raised ''Ann'' ''Acme'' ''Finance'' 20 ''Organic'') ''quality''
     = Some (JStr ''Low'')
   \<and> get_item (enhance_lead_with_llm True Raised ''Ann'' ''Acme'' ''Finance'' 20 ''Organic'') ''summary''
     = Some (JStr ''Lead from Acme in Finance industry with 20 employees. Source: Organic.'')
   \<and> enhance_lead_with_llm True (Parsed (JInt 3)) ''Ann'' ''Acme'' ''Finance'' 20 ''Organic'' = JInt 3"
  using llm_fallback_on_exception [of "''Ann''" "''Acme''" "''Finance''" 20 "''Organic''" "JInt 3"]
  by (simp add: rule_quality_def rule_summary_def str_int_def str_nat.simps digit_char_def)

subsection \<open>Listing leads\<close>

text \<open>
  C9. In the leads-list endpoint an industry parameter equal to the empty string, or a
  size parameter equal to 0, is treated exactly as if the parameter were absent: the
  response and the logged event, hence the whole store afterwards, are the same.
\<close>

theorem empty_filters_as_absent:
  "get_leads fmt now (Some []) size_p db = get_leads fmt now None size_p db
   \<and> get_leads fmt now industry_p (Some 0) db = get_leads fmt now industry_p None db
   \<and> query_leads (Some []) size_p ls = query_leads None size_p ls
   \<and> query_leads industry_p (Some 0) ls = query_leads industry_p None ls
   \<and> filter_data (Some []) size_p = filter_data None size_p
   \<and> filter_data industry_p (Some 0) = filter_data industry_p None"
  by (simp add: get_leads_def query_leads_def filter_event_def filter_data_def)

theorem empty_filters_as_absent_witness:
  "get_leads (\<lambda>t. ''t'') 7 (Some []) (Some 0) \<lparr>leads = [], events = []\<rparr>
     = get_leads (\<lambda>t. ''t'') 7 None None \<lparr>leads = [], events = []\<rparr>
   \<and> get_leads (\<lambda>t. ''t'') 7 None None \<lparr>leads = [], events = []\<rparr>
     = (\<lparr>leads = [], events = [\<lparr>id_e = 1, action = ''filter'', data = JNull, timestamp = 7\<rparr>]\<rparr>, Inr [])"
  using empty_filters_as_absent [of "\<lambda>t. ''t''" 7 "Some 0" "\<lparr>leads = [], events = []\<rparr>" "None"]
  by (simp add: get_leads_def filter_event_def filter_data_def next_id_def query_leads_def)




subsection \<open>Logging an event\<close>

text \<open>
  C5. Appending an event whose timestamp is absent, empty or refused by
  \<^verbatim>\<open>fromisoformat\<close> stores the event with the server's clock reading \<open>now\<close> as its
  timestamp: the store gains exactly that event, and the response, when the payload
  passes the response schema, carries the same time.
\<close>

theorem post_event_default_timestamp:
  assumes "timestamp_d ed = None \<or> timestamp_d ed = Some []
           \<or> (\<exists>s. timestamp_d ed = Some s \<and> fromisoformat (replace_Z s) = None)"
  shows "fst (post_event fromisoformat fmt as_dict now ed db)
           = db\<lparr>events := events db @
                  [\<lparr>id_e = next_id (events db), action = action_d ed, data = data_d ed,
                    timestamp = now\<rparr>]\<rparr>
         \<and> snd (post_event fromisoformat fmt as_dict now ed db)
           = (case response_data as_dict (data_d ed) of
                None \<Rightarrow> Inl (HTTPException 500)
              | Some d \<Rightarrow> Inr \<lparr>id_v = next_id (events db), action_v = action_d ed, data_v = d,
                               timestamp_v = fmt now\<rparr>)"
  using assms
  by (auto simp add: post_event_def event_timestamp_def Let_def split: option.splits)

theorem post_event_default_timestamp_witness:
  "post_event (\<lambda>s. None) (\<lambda>t. ''now'') (\<lambda>v. None) 42
      \<lparr>action_d = ''toggle_view'', data_d = JNull, timestamp_d = None\<rparr>
      \<lparr>leads = [], events = []\<rparr>
     = (\<lparr>leads = [], events = [\<lparr>id_e = 1, action = ''toggle_view'', data = JNull, timestamp = 42\<rparr>]\<rparr>,
        Inr \<lparr>id_v = 1, action_v = ''toggle_view'', data_v = JNull, timestamp_v = ''now''\<rparr>)
   \<and> fst (post_event (\<lambda>s. if s = ''7'' then Some 7 else None) (\<lambda>t. ''now'') (\<lambda>v. None) 42
      \<lparr>action_d = ''toggle_view'', data_d = JNull, timestamp_d = Some ''yesterday''\<rparr>
      \<lparr>leads = [], events = []\<rparr>)
     = \<lparr>leads = [], events = [\<lparr>id_e = 1, action = ''toggle_view'', data = JNull, timestamp = 42\<rparr>]\<rparr>"
  using post_event_default_timestamp [of "\<lparr>action_d = ''toggle_view'', data_d = JNull, timestamp_d = None\<rparr>"
           "\<lambda>s. None" "\<lambda>t. ''now''" "\<lambda>v. None" 42 "\<lparr>leads = [], events = []\<rparr>"]
        post_event_default_timestamp [of "\<lparr>action_d = ''toggle_view'', data_d = JNull, timestamp_d = Some ''yesterday''\<rparr>"
           "\<lambda>s. if s = ''7'' then Some 7 else None" "\<lambda>t. ''now''" "\<lambda>v. None" 42 "\<lparr>leads = [], events = []\<rparr>"]
  by (simp add: next_id_def replace_Z_def prod_eq_iff)

subsection \<open>Filter usage patterns\<close>

text \<open>
  On payloads that are null or dicts the aggregation runs through: two uses of
  "Finance", one of "Health", and the mean of the sizes 100 and 51.
\<close>

lemma filter_usage_on_dicts:
  "filter_usage_patterns
     [\<lparr>id_e = 1, action = ''filter'',
        data = JObj [(''industry'', JStr ''Health''), (''size'', JInt 100)], timestamp = 0\<rparr>,
      \<lparr>id_e = 2, action = ''toggle_view'', data = JInt 5, timestamp = 1\<rparr>,
      \<lparr>id_e = 3, action = ''filter'', data = JNull, timestamp = 2\<rparr>,
      \<lparr>id_e = 4, action = ''filter'',
        data = JObj [(''industry'', JStr ''Finance''), (''size'', JInt 51)], timestamp = 3\<rparr>,
      \<lparr>id_e = 5, action = ''filter'',
        data = JObj [(''industry'', JStr ''Finance'')], timestamp = 4\<rparr>]
     = Inr \<lparr>most_filtered = [(JStr ''Finance'', 2), (JStr ''Health'', 1)],
            avg_size_filter = Some (151 / 2)\<rparr>"
  by (simp add: filter_usage_patterns_def scan_event_def key_eq_def)

text \<open>
  C3 asks that a filter event whose payload is not a mapping be skipped and the
  aggregation go on. The loop of \<^verbatim>\<open>get_usage_analytics\<close> does not do that: on a stored
  filter event whose payload is the number 5 the test \<^verbatim>\<open>'industry' in event.data\<close>
  raises a TypeError, and on the payload "industry" (a string) the test succeeds and
  the subscript raises, although a well-formed event follows.
\<close>

theorem filter_usage_raises:
  "filter_usage_patterns [\<lparr>id_e = 1, action = ''filter'', data = JInt 5, timestamp = 0\<rparr>] = Inl TypeError
   \<and> filter_usage_patterns
        [\<lparr>id_e = 1, action = ''filter'', data = JStr ''industry'', timestamp = 0\<rparr>,
         \<lparr>id_e = 2, action = ''filter'', data = JObj [(''industry'', JStr ''Finance'')], timestamp = 1\<rparr>]
       = Inl TypeError"
  by (simp add: filter_usage_patterns_def scan_event_def)

subsection \<open>Lead quality distribution\<close>








subsection \<open>Action frequency\<close>






subsection \<open>The industry and size filters\<close>













end
